theory Spec2Isabelle
  imports Main
begin

section \<open>Python values used by check50\<close>

text \<open>
  The model follows \<^verbatim>\<open>check50.py\<close>. A Python \<^verbatim>\<open>str\<close> is a \<^typ>\<open>string\<close> whose
  characters stand for code points below 256. The debugging lines that the program
  prints to \<^verbatim>\<open>sys.stderr\<close> are not part of the model.

  \<^verbatim>\<open>Checks.PASS = True\<close>, \<^verbatim>\<open>Checks.FAIL = False\<close> and \<^verbatim>\<open>Checks.SKIP = None\<close>:
  a verdict is the Python value itself, \<open>None\<close> being Python's \<^verbatim>\<open>None\<close>.
\<close>

type_synonym verdict = "bool option"

definition PASS :: verdict where
  "PASS = Some True"

definition FAIL :: verdict where
  "FAIL = Some False"

definition SKIP :: verdict where
  "SKIP = None"

text \<open>
  The values that \<^verbatim>\<open>Mismatch\<close> holds and \<^verbatim>\<open>Mismatch.raw\<close> renders: a string, a
  list of strings, or the class \<^verbatim>\<open>pexpect.exceptions.EOF\<close> used as a sentinel.
\<close>

datatype pyobj = Str string | StrList "string list" | EOF

datatype Mismatch = Mismatch (expected: pyobj) (actual: pyobj)

text \<open>The rationale of a check: \<^verbatim>\<open>None\<close>, a message, or a \<^verbatim>\<open>Mismatch\<close>.\<close>

datatype rationale = NoRationale | Text string | Mis Mismatch

text \<open>
  Exceptions. \<^verbatim>\<open>Error(rationale, helpers, result)\<close> is the diagnostic of a check;
  \<^verbatim>\<open>InternalError(msg)\<close> is the harness's own; \<open>AssertionError\<close> is what
  \<^verbatim>\<open>TestCase.fail()\<close> raises; \<open>ExcEOF\<close> and \<open>ExcTIMEOUT\<close> are the exceptions
  \<^verbatim>\<open>EOF\<close> and \<^verbatim>\<open>TIMEOUT\<close> of \<^verbatim>\<open>pexpect\<close>; \<open>PyExc name\<close> is any other Python
  exception.
\<close>

datatype exn =
    Error rationale "string option" verdict
  | InternalError string
  | AssertionError
  | ExcEOF
  | ExcTIMEOUT
  | PyExc string

section \<open>Mismatch.raw\<close>

text \<open>
  \<^verbatim>\<open>repr\<close> of a Python 3 string. The quote is \<^verbatim>\<open>"\<close> when the string has a
  \<^verbatim>\<open>'\<close> and no \<^verbatim>\<open>"\<close>, and \<^verbatim>\<open>'\<close> otherwise. The quote and the backslash are
  escaped with a backslash, tab, newline and carriage return as \<^verbatim>\<open>\t \n \r\<close>, every
  other character that is not printable as \<^verbatim>\<open>\xhh\<close>. Below 256 the printable
  characters are 0x20 to 0x7e and 0xa1 to 0xff without 0xad.
\<close>

definition hex_digit :: "nat \<Rightarrow> char" where
  "hex_digit n = ''0123456789abcdef'' ! (n mod 16)"

definition py_isprintable :: "char \<Rightarrow> bool" where
  "py_isprintable c =
     (let n = (of_char c :: nat) in (32 \<le> n \<and> n < 127) \<or> (161 \<le> n \<and> n \<noteq> 173))"

definition repr_quote :: "string \<Rightarrow> char" where
  "repr_quote s = (if CHR 0x27 \<in> set s \<and> CHR 0x22 \<notin> set s then CHR 0x22 else CHR 0x27)"

definition repr_char :: "char \<Rightarrow> char \<Rightarrow> string" where
  "repr_char q c =
     (if c = q \<or> c = CHR 0x5C then [CHR 0x5C, c]
      else if c = CHR 0x09 then [CHR 0x5C, CHR ''t'']
      else if c = CHR 0x0A then [CHR 0x5C, CHR ''n'']
      else if c = CHR 0x0D then [CHR 0x5C, CHR ''r'']
      else if py_isprintable c then [c]
      else [CHR 0x5C, CHR ''x'', hex_digit (of_char c div 16), hex_digit (of_char c)])"

definition escaped :: "string \<Rightarrow> string" where
  "escaped s = concat (map (repr_char (repr_quote s)) s)"

definition py_repr :: "string \<Rightarrow> string" where
  "py_repr s = [repr_quote s] @ escaped s @ [repr_quote s]"

text \<open>\<^verbatim>\<open>sep.join(xs)\<close>.\<close>

fun join :: "string \<Rightarrow> string list \<Rightarrow> string" where
  "join sep [] = []"
| "join sep [x] = x"
| "join sep (x # y # ys) = x @ sep @ join sep (y # ys)"

text \<open>
  \<^verbatim>\<open>
  def raw(s):
      if type(s) == list:
          s = "\n".join(s)
      if s == EOF:
          return "EOF"
      s = repr(s)  # get raw representation of string
      s = s[1:-1]  # strip away quotation marks
      if len(s) > 15:
          s = s[:15] + "..."  # truncate if too long
      return "\"{}\"".format(s)
  \<close>
  The slice \<^verbatim>\<open>s[1:-1]\<close> is \<open>butlast (tl s)\<close> at every length. After the first
  statement \<open>s\<close> is not a list, so the last case below is never taken.
\<close>

definition cut15 :: "string \<Rightarrow> string" where
  "cut15 s = (if length s > 15 then take 15 s @ ''...'' else s)"

definition raw :: "pyobj \<Rightarrow> string" where
  "raw s0 =
     (let s = (case s0 of StrList xs \<Rightarrow> Str (join [CHR 0x0A] xs) | _ \<Rightarrow> s0) in
      case s of
        EOF \<Rightarrow> ''EOF''
      | Str t \<Rightarrow> [CHR 0x22] @ cut15 (butlast (tl (py_repr t))) @ [CHR 0x22]
      | StrList xs \<Rightarrow> [])"

text \<open>\<^verbatim>\<open>Mismatch.__str__\<close>.\<close>

definition Mismatch_str :: "Mismatch \<Rightarrow> string" where
  "Mismatch_str m = ''expected '' @ raw (expected m) @ '', not '' @ raw (actual m)"

section \<open>The pexpect child, Child and Checks\<close>

text \<open>
  The object that \<^verbatim>\<open>pexpect.spawn\<close> returns: the attributes that check50 reads, and
  the rest of its state (the process and its terminal) as \<open>hidden\<close>. The attribute
  \<^verbatim>\<open>before\<close> is the field \<open>before_text\<close>. \<^verbatim>\<open>after\<close> is a
  string, or the class \<^verbatim>\<open>EOF\<close> or \<^verbatim>\<open>TIMEOUT\<close>, or \<^verbatim>\<open>None\<close> before the first
  call of \<^verbatim>\<open>expect\<close>.
\<close>

datatype after_val = AfterNone | AfterStr string | AfterEOF | AfterTIMEOUT

record 'p spawn =
  before_text :: string
  after :: after_val
  buffer :: string
  spawn_exitstatus :: "int option"
  hidden :: 'p

text \<open>
  \<^verbatim>\<open>Child\<close> wraps it. \<^verbatim>\<open>output\<close> is a list of chunks until \<^verbatim>\<open>wait\<close> joins it.
  The field \<^verbatim>\<open>test\<close>, the owning check, is not a field here: the functions that
  append to \<^verbatim>\<open>self.test.log\<close> take the log and return it.
\<close>

record 'p Child =
  child :: "'p spawn"
  "output" :: pyobj
  exitstatus :: "int option"

definition new_Child :: "'p spawn \<Rightarrow> 'p Child" where
  "new_Child c = \<lparr>child = c, output = StrList [], exitstatus = None\<rparr>"

text \<open>
  An instance of \<^verbatim>\<open>Checks\<close>. \<^verbatim>\<open>dir\<close> is \<open>None\<close> until the wrapper of
  \<^verbatim>\<open>check\<close> sets the attribute.
\<close>

record 'p Checks =
  testMethodName :: string
  result :: verdict
  rationale :: rationale
  helpers :: "string option"
  log :: "string list"
  children :: "'p Child list"
  dir :: "string option"
  valgrind_on :: bool

text \<open>
  \<^verbatim>\<open>
  def __init__(self, method_name):
      super(Checks, self).__init__(method_name)
      self.result = self.FAIL
      self.rationale = None
      self.helpers = None
      self.log = []
      self.children = []
  \<close>
\<close>

definition new_Checks :: "string \<Rightarrow> 'p Checks" where
  "new_Checks method_name =
     \<lparr>testMethodName = method_name, result = FAIL, rationale = NoRationale, helpers = None,
      log = [], children = [], dir = None, valgrind_on = False\<rparr>"

section \<open>The module config and the operating system\<close>

text \<open>
  A directory tree, and the state that the checks share: the lists and the dictionary
  of the module \<^verbatim>\<open>config\<close>, the file system as a map from the path of a tree to the
  tree, the current directory and \<^verbatim>\<open>os.environ\<close>.
\<close>

datatype node = FileNode string | DirNode "(string \<times> node) list"

record world =
  test_cases :: "string list"
  test_results :: "string \<rightharpoonup> verdict"
  tempdir :: string
  fs :: "string \<rightharpoonup> node"
  cwd :: string
  environ :: "string \<rightharpoonup> string"

text \<open>\<^verbatim>\<open>os.path.join(a, b)\<close> of \<^verbatim>\<open>posixpath\<close>, for two components.\<close>

definition path_join :: "string \<Rightarrow> string \<Rightarrow> string" where
  "path_join a b =
     (if b \<noteq> [] \<and> hd b = CHR ''/'' then b
      else if a = [] \<or> last a = CHR ''/'' then a @ b
      else a @ ''/'' @ b)"

text \<open>
  \<^verbatim>\<open>shutil.copytree(src, dst)\<close>: it lists \<open>src\<close>, which fails when \<open>src\<close> is missing or
  is a file, then creates \<open>dst\<close>, which fails when \<open>dst\<close> exists, then copies.
\<close>

definition copytree :: "string \<Rightarrow> string \<Rightarrow> (string \<rightharpoonup> node) \<Rightarrow> exn + (string \<rightharpoonup> node)" where
  "copytree src dst f =
     (case f src of
        None \<Rightarrow> Inl (PyExc ''OSError'')
      | Some (FileNode _) \<Rightarrow> Inl (PyExc ''OSError'')
      | Some (DirNode entries) \<Rightarrow>
          (if f dst \<noteq> None then Inl (PyExc ''OSError'')
           else Inr (f(dst \<mapsto> DirNode entries))))"

section \<open>The decorator check\<close>

text \<open>
  The body of a check is Python code: it takes the instance and the shared state, and
  returns them with the exception it raised, \<open>None\<close> when it returned.
\<close>

type_synonym 'p body = "'p Checks \<Rightarrow> world \<Rightarrow> exn option \<times> 'p Checks \<times> world"

text \<open>Python's truth value of \<^verbatim>\<open>dependency\<close>: \<^verbatim>\<open>None\<close> and \<^verbatim>\<open>""\<close> are false.\<close>

definition truthy :: "string option \<Rightarrow> bool" where
  "truthy d = (case d of None \<Rightarrow> False | Some n \<Rightarrow> n \<noteq> [])"

text \<open>\<^verbatim>\<open>dependency or "_"\<close>.\<close>

definition or_underscore :: "string option \<Rightarrow> string" where
  "or_underscore d = (case d of None \<Rightarrow> ''_'' | Some n \<Rightarrow> if n \<noteq> [] then n else ''_'')"

text \<open>\<^verbatim>\<open>config.test_results.get(dependency)\<close>: \<^verbatim>\<open>None\<close> for a missing key.\<close>

definition dict_get :: "(string \<rightharpoonup> verdict) \<Rightarrow> string option \<Rightarrow> verdict" where
  "dict_get m d = (case d of None \<Rightarrow> None | Some k \<Rightarrow> (case m k of None \<Rightarrow> None | Some v \<Rightarrow> v))"

text \<open>
  \<^verbatim>\<open>
  def wrapper(self):
      if dependency and config.test_results.get(dependency) != Checks.PASS:
          self.result = config.test_results[func.__name__] = Checks.SKIP
          self.rationale = "can't check until a frown turns upside down"
          return
      self.dir = dst_dir = os.path.join(config.tempdir, self._testMethodName)
      src_dir = os.path.join(config.tempdir, dependency or "_")
      shutil.copytree(src_dir, dst_dir)
      os.chdir(self.dir)
      try:
          func(self)
      except Error as e:
          self.rationale = e.rationale
          self.helpers = e.helpers
          result = e.result
      else:
          result = Checks.PASS
      self.result = config.test_results[func.__name__] = result
  \<close>
  \<open>fname\<close> is \<^verbatim>\<open>func.__name__\<close>.
\<close>

definition wrapper ::
  "string \<Rightarrow> string option \<Rightarrow> 'p body \<Rightarrow> 'p Checks \<Rightarrow> world \<Rightarrow> exn option \<times> 'p Checks \<times> world" where
  "wrapper fname dependency func self w =
     (if truthy dependency \<and> dict_get (test_results w) dependency \<noteq> PASS then
        (None,
         self\<lparr>result := SKIP,
              rationale := Text ''can't check until a frown turns upside down''\<rparr>,
         w\<lparr>test_results := (test_results w)(fname \<mapsto> SKIP)\<rparr>)
      else
        let dst_dir = path_join (tempdir w) (testMethodName self);
            self1 = self\<lparr>dir := Some dst_dir\<rparr>;
            src_dir = path_join (tempdir w) (or_underscore dependency)
        in case copytree src_dir dst_dir (fs w) of
             Inl e \<Rightarrow> (Some e, self1, w)
           | Inr fs1 \<Rightarrow>
               (case func self1 (w\<lparr>fs := fs1, cwd := dst_dir\<rparr>) of
                  (Some (Error r h res), self2, w2) \<Rightarrow>
                    (None,
                     self2\<lparr>rationale := r, helpers := h, result := res\<rparr>,
                     w2\<lparr>test_results := (test_results w2)(fname \<mapsto> res)\<rparr>)
                | (Some e, self2, w2) \<Rightarrow> (Some e, self2, w2)
                | (None, self2, w2) \<Rightarrow>
                    (None,
                     self2\<lparr>result := PASS\<rparr>,
                     w2\<lparr>test_results := (test_results w2)(fname \<mapsto> PASS)\<rparr>)))"

text \<open>
  \<^verbatim>\<open>
  def check(dependency=None):
      def decorator(func):
          config.test_cases.append(func.__name__)
          @wraps(func)
          def wrapper(self): ...
          return wrapper
      return decorator
  \<close>
  Applying the decorator is a call, so its result is an exception or a value; nothing
  on this path raises.
\<close>

definition check ::
  "string option \<Rightarrow> string \<Rightarrow> 'p body \<Rightarrow> world
     \<Rightarrow> exn + ('p Checks \<Rightarrow> world \<Rightarrow> exn option \<times> 'p Checks \<times> world) \<times> world" where
  "check dependency fname func w =
     Inr (wrapper fname dependency func, w\<lparr>test_cases := test_cases w @ [fname]\<rparr>)"

section \<open>Running the suite\<close>

text \<open>
  \<^verbatim>\<open>tearDown\<close> pops and kills every child; what remains in the instance is an empty
  list of children.
\<close>

definition tearDown :: "'p Checks \<Rightarrow> 'p Checks" where
  "tearDown self = self\<lparr>children := []\<rparr>"

text \<open>
  \<^verbatim>\<open>
  suite = unittest.TestSuite()
  for case in config.test_cases:
      suite.addTest(checks(case))
  result = TestResult()
  suite.run(result)
  \<close>
  The class of checks maps the name of a method to its declared dependency and its body.
  \<^verbatim>\<open>checks(case)\<close> raises \<open>ValueError\<close> when the class has no method of that name.
  \<^verbatim>\<open>unittest\<close> runs the method and then \<^verbatim>\<open>tearDown\<close>. A method that returns goes to
  \<^verbatim>\<open>addSuccess\<close>, which appends the instance's verdict to the results; one that raises
  \<open>AssertionError\<close> goes to the inherited \<^verbatim>\<open>addFailure\<close>, which leaves the results
  alone; one that raises anything else goes to \<^verbatim>\<open>addError\<close>, which ends the process
  with \<^verbatim>\<open>sys.exit(1)\<close>.
\<close>

fun run_tests ::
  "(string \<rightharpoonup> string option \<times> 'p body) \<Rightarrow> string list \<Rightarrow> world \<Rightarrow> 'p Checks list
     \<Rightarrow> exn + 'p Checks list \<times> world" where
  "run_tests cls [] w results = Inr (results, w)"
| "run_tests cls (c # cs) w results =
     (case cls c of
        None \<Rightarrow> Inl (PyExc ''ValueError'')
      | Some (dependency, func) \<Rightarrow>
          (case wrapper c dependency func (new_Checks c) w of
             (None, test, w1) \<Rightarrow> run_tests cls cs w1 (results @ [tearDown test])
           | (Some AssertionError, test, w1) \<Rightarrow> run_tests cls cs w1 results
           | (Some e, test, w1) \<Rightarrow> Inl e))"

definition run_suite ::
  "(string \<rightharpoonup> string option \<times> 'p body) \<Rightarrow> world \<Rightarrow> exn + 'p Checks list \<times> world" where
  "run_suite cls w =
     (if \<exists>c \<in> set (test_cases w). cls c = None then Inl (PyExc ''ValueError'')
      else run_tests cls (test_cases w) w [])"

section \<open>Child.stdout\<close>

text \<open>
  The library \<^verbatim>\<open>pexpect\<close> is a parameter. \<^verbatim>\<open>expect\<close> and \<^verbatim>\<open>expect_exact\<close> take the
  pattern (a string, or the class \<^verbatim>\<open>EOF\<close>), the timeout in seconds and the object;
  they return the object as they leave it, with the exception they raised if any.
  \<^verbatim>\<open>spawnu\<close> takes the command, the argument \<^verbatim>\<open>env\<close> and the process environment at
  the time of the call, which the child inherits when \<^verbatim>\<open>env\<close> is \<^verbatim>\<open>None\<close>.
  \<^verbatim>\<open>Child.wait\<close> polls the clock and the process until a deadline; it is a parameter
  as well.
\<close>

record 'p pexpect =
  expect :: "pyobj \<Rightarrow> int \<Rightarrow> 'p spawn \<Rightarrow> exn option \<times> 'p spawn"
  expect_exact :: "pyobj \<Rightarrow> int \<Rightarrow> 'p spawn \<Rightarrow> exn option \<times> 'p spawn"
  spawnu :: "string \<Rightarrow> (string \<rightharpoonup> string) option \<Rightarrow> (string \<rightharpoonup> string) \<Rightarrow> 'p spawn"
  wait :: "int \<Rightarrow> 'p Child \<Rightarrow> exn option \<times> 'p Child"

text \<open>
  The argument \<^verbatim>\<open>output\<close> of \<^verbatim>\<open>stdout\<close>: \<^verbatim>\<open>None\<close>, a string, a \<^verbatim>\<open>File\<close> with its
  name, or the class \<^verbatim>\<open>EOF\<close>. What \<^verbatim>\<open>stdout\<close> returns: \<^verbatim>\<open>self\<close>, or the transcript.
\<close>

datatype expectation = NoOutput | Plain string | FileObj string | ExpectEOF

datatype stdout_ret = Self | Transcript pyobj

text \<open>\<^verbatim>\<open>s.replace("\n", "\r\n")\<close> and \<^verbatim>\<open>s.replace("\r\n", "\n")\<close>.\<close>

definition lf_to_crlf :: "string \<Rightarrow> string" where
  "lf_to_crlf s = concat (map (\<lambda>c. if c = CHR 0x0A then [CHR 0x0D, CHR 0x0A] else [c]) s)"

fun crlf_to_lf :: "string \<Rightarrow> string" where
  "crlf_to_lf [] = []"
| "crlf_to_lf [c] = [c]"
| "crlf_to_lf (c # d # s) =
     (if c = CHR 0x0D \<and> d = CHR 0x0A then CHR 0x0A # crlf_to_lf s else c # crlf_to_lf (d # s))"

text \<open>
  \<^verbatim>\<open>
  try:
      output = output.read()
  except AttributeError:
      expect = self.child.expect
  else:
      expect = self.child.expect_exact
  \<close>
  Only a \<^verbatim>\<open>File\<close> has \<^verbatim>\<open>read\<close>. \<open>files\<close> maps the name of a file that \<^verbatim>\<open>open\<close> can
  read to its content.
\<close>

definition read_output :: "(string \<rightharpoonup> string) \<Rightarrow> expectation \<Rightarrow> exn + pyobj" where
  "read_output files outp =
     (case outp of
        FileObj name \<Rightarrow> (case files name of None \<Rightarrow> Inl (PyExc ''IOError'') | Some text \<Rightarrow> Inr (Str text))
      | Plain s \<Rightarrow> Inr (Str s)
      | ExpectEOF \<Rightarrow> Inr EOF
      | NoOutput \<Rightarrow> Inl (PyExc ''AttributeError''))"

definition matcher ::
  "'p pexpect \<Rightarrow> expectation \<Rightarrow> pyobj \<Rightarrow> int \<Rightarrow> 'p spawn \<Rightarrow> exn option \<times> 'p spawn" where
  "matcher px outp = (case outp of FileObj name \<Rightarrow> expect_exact px | _ \<Rightarrow> expect px)"

text \<open>
  \<^verbatim>\<open>
  if output == EOF:
      str_output = "EOF"
  else:
      if str_output is None:
          str_output = output
      output = output.replace("\n", "\r\n")
  \<close>
  Here \<^verbatim>\<open>output\<close> is a string or \<^verbatim>\<open>EOF\<close>; a list does not reach this point.
\<close>

definition label :: "string option \<Rightarrow> pyobj \<Rightarrow> string" where
  "label str_output outp =
     (case outp of
        EOF \<Rightarrow> ''EOF''
      | Str s \<Rightarrow> (case str_output of None \<Rightarrow> s | Some l \<Rightarrow> l)
      | StrList xs \<Rightarrow> [])"

definition pattern :: "pyobj \<Rightarrow> pyobj" where
  "pattern outp = (case outp of Str s \<Rightarrow> Str (lf_to_crlf s) | _ \<Rightarrow> outp)"

text \<open>
  \<^verbatim>\<open>
  result = self.child.before + self.child.buffer
  if self.child.after != EOF:
      result += self.child.after
  \<close>
  Adding \<^verbatim>\<open>after\<close> when it is neither a string nor \<^verbatim>\<open>EOF\<close> raises \<open>TypeError\<close>.
\<close>

definition captured :: "'p spawn \<Rightarrow> exn + string" where
  "captured c =
     (case after c of
        AfterEOF \<Rightarrow> Inr (before_text c @ buffer c)
      | AfterStr a \<Rightarrow> Inr (before_text c @ buffer c @ a)
      | _ \<Rightarrow> Inl (PyExc ''TypeError''))"

text \<open>
  \<^verbatim>\<open>
  def stdout(self, output=None, str_output=None, timeout=3):
      if output is None:
          return self.wait(timeout).output
      (the two fragments above)
      self.test.log.append("checking for output \"{}\"...".format(str_output))
      try:
          expect(output, timeout=timeout)
      except EOF:
          (result, as above)
          raise Error(Mismatch(str_output, result.replace("\r\n", "\n")))
      except TIMEOUT:
          raise Error("timed out while waiting for {}".format(Mismatch.raw(str_output)))
      if output == EOF and self.child.before:
          raise Error(Mismatch(EOF, self.child.before.replace("\r\n", "\n")))
      return self
  \<close>
  The function takes the log of the owning check and returns it with the \<^verbatim>\<open>Child\<close>.
\<close>

definition stdout ::
  "'p pexpect \<Rightarrow> (string \<rightharpoonup> string) \<Rightarrow> expectation \<Rightarrow> string option \<Rightarrow> int \<Rightarrow> string list
     \<Rightarrow> 'p Child \<Rightarrow> (exn + stdout_ret) \<times> string list \<times> 'p Child" where
  "stdout px files outp str_output timeout lg self =
     (if outp = NoOutput then
        (case wait px timeout self of
           (Some e, self1) \<Rightarrow> (Inl e, lg, self1)
         | (None, self1) \<Rightarrow> (Inr (Transcript (Child.output self1)), lg, self1))
      else
        case read_output files outp of
          Inl e \<Rightarrow> (Inl e, lg, self)
        | Inr out \<Rightarrow>
            let lg1 = lg @ [''checking for output '' @ [CHR 0x22] @ label str_output out
                             @ [CHR 0x22] @ ''...'']
            in case matcher px outp (pattern out) timeout (child self) of
                 (Some ExcEOF, c) \<Rightarrow>
                   (case captured c of
                      Inl e \<Rightarrow> (Inl e, lg1, self\<lparr>child := c\<rparr>)
                    | Inr res \<Rightarrow>
                        (Inl (Error (Mis (Mismatch (Str (label str_output out))
                                            (Str (crlf_to_lf res)))) None FAIL),
                         lg1, self\<lparr>child := c\<rparr>))
               | (Some ExcTIMEOUT, c) \<Rightarrow>
                   (Inl (Error (Text (''timed out while waiting for ''
                                      @ raw (Str (label str_output out)))) None FAIL),
                    lg1, self\<lparr>child := c\<rparr>)
               | (Some e, c) \<Rightarrow> (Inl e, lg1, self\<lparr>child := c\<rparr>)
               | (None, c) \<Rightarrow>
                   (if out = EOF \<and> before_text c \<noteq> [] then
                      (Inl (Error (Mis (Mismatch EOF (Str (crlf_to_lf (before_text c))))) None FAIL),
                       lg1, self\<lparr>child := c\<rparr>)
                    else (Inr Self, lg1, self\<lparr>child := c\<rparr>)))"

section \<open>Checks.spawn\<close>

text \<open>
  \<^verbatim>\<open>shlex.quote\<close>: the empty string is \<^verbatim>\<open>''\<close>; a string of letters, digits and
  \<^verbatim>\<open>_@%+=:,./-\<close> is itself; any other is put between single quotes, each of its single
  quotes written \<^verbatim>\<open>'"'"'\<close>.
\<close>

definition safe_char :: "char \<Rightarrow> bool" where
  "safe_char c =
     (let n = (of_char c :: nat) in
      (48 \<le> n \<and> n \<le> 57) \<or> (65 \<le> n \<and> n \<le> 90) \<or> (97 \<le> n \<and> n \<le> 122)
      \<or> c \<in> set ''_@%+=:,./-'')"

definition quote :: "string \<Rightarrow> string" where
  "quote s =
     (if s = [] then [CHR 0x27, CHR 0x27]
      else if list_all safe_char s then s
      else [CHR 0x27]
           @ concat (map (\<lambda>c. if c = CHR 0x27
                                then [CHR 0x27, CHR 0x22, CHR 0x27, CHR 0x22, CHR 0x27]
                                else [c]) s)
           @ [CHR 0x27])"

text \<open>
  \<^verbatim>\<open>
  def spawn(self, cmd, env=None):
      if self._valgrind:
          self.log.append("running valgrind {}...".format(cmd))
          cmd = "valgrind --show-leak-kinds=all --xml=yes --xml-file={} -- {}" \
                      .format(os.path.join(self.dir, self._valgrind_log), cmd)
      else:
          self.log.append("running {}...".format(cmd))
      if env is None:
          env = {}
      env = os.environ.update(env)
      cmd = "bash -c {}".format(quote(cmd))
      child = pexpect.spawnu(cmd, encoding="utf-8", echo=False, env=env)
      self.children.append(Child(self, child))
      return self.children[-1]
  \<close>
  \<^verbatim>\<open>dict.update\<close> changes \<^verbatim>\<open>os.environ\<close> and returns \<^verbatim>\<open>None\<close>, which is the value
  that \<^verbatim>\<open>env\<close> has from then on. Reading \<^verbatim>\<open>self.dir\<close> before the wrapper of \<^verbatim>\<open>check\<close>
  has set it raises \<open>AttributeError\<close>.
\<close>

definition valgrind_log :: string where
  "valgrind_log = ''valgrind.xml''"

definition dict_update ::
  "(string \<rightharpoonup> string) \<Rightarrow> (string \<rightharpoonup> string) \<Rightarrow> (string \<rightharpoonup> string) \<times> (string \<rightharpoonup> string) option" where
  "dict_update d other = (d ++ other, None)"

definition spawn ::
  "'p pexpect \<Rightarrow> string \<Rightarrow> (string \<rightharpoonup> string) option \<Rightarrow> 'p Checks \<Rightarrow> world
     \<Rightarrow> (exn + 'p Child) \<times> 'p Checks \<times> world" where
  "spawn px cmd env self w =
     (if valgrind_on self \<and> dir self = None then
        (Inl (PyExc ''AttributeError''),
         self\<lparr>log := log self @ [''running valgrind '' @ cmd @ ''...'']\<rparr>, w)
      else
        let self1 = (if valgrind_on self
                     then self\<lparr>log := log self @ [''running valgrind '' @ cmd @ ''...'']\<rparr>
                     else self\<lparr>log := log self @ [''running '' @ cmd @ ''...'']\<rparr>);
            cmd1 = (if valgrind_on self
                    then ''valgrind --show-leak-kinds=all --xml=yes --xml-file=''
                         @ path_join (case dir self of Some d \<Rightarrow> d | None \<Rightarrow> []) valgrind_log
                         @ '' -- '' @ cmd
                    else cmd);
            env1 = (case env of None \<Rightarrow> Map.empty | Some e \<Rightarrow> e);
            (environ1, env2) = dict_update (environ w) env1;
            cmd2 = ''bash -c '' @ quote cmd1;
            c = new_Child (spawnu px cmd2 env2 environ1)
        in (Inr c, self1\<lparr>children := children self1 @ [c]\<rparr>, w\<lparr>environ := environ1\<rparr>))"

section \<open>Checks._check_valgrind\<close>

text \<open>
  An element of the parsed report: its tag, its attribute \<^verbatim>\<open>text\<close> as \<open>elem_text\<close>
  (\<^verbatim>\<open>None\<close> when it has none) and its children. \<^verbatim>\<open>iterfind\<close> with a path \<^verbatim>\<open>a/b\<close> yields, in document order, the
  children tagged \<^verbatim>\<open>b\<close> of the children tagged \<^verbatim>\<open>a\<close>; \<^verbatim>\<open>find\<close> returns the first
  of them or \<^verbatim>\<open>None\<close>.
\<close>

datatype xml = Element (tag: string) (elem_text: "string option") (elems: "xml list")

fun iterfind :: "string list \<Rightarrow> xml \<Rightarrow> xml list" where
  "iterfind [] e = [e]"
| "iterfind (t # ts) e = concat (map (iterfind ts) (filter (\<lambda>k. tag k = t) (elems e)))"

definition find_elem :: "string list \<Rightarrow> xml \<Rightarrow> xml option" where
  "find_elem path e = (case iterfind path e of [] \<Rightarrow> None | x # xs \<Rightarrow> Some x)"

text \<open>\<^verbatim>\<open>s.startswith(p)\<close>, and \<^verbatim>\<open>"{}".format(t)\<close> for a text that may be \<^verbatim>\<open>None\<close>.\<close>

definition startswith :: "string \<Rightarrow> string \<Rightarrow> bool" where
  "startswith s p = (take (length p) s = p)"

definition format_text :: "string option \<Rightarrow> string" where
  "format_text t = (case t of None \<Rightarrow> ''None'' | Some s \<Rightarrow> s)"

text \<open>
  \<^verbatim>\<open>os.path.dirname\<close> of \<^verbatim>\<open>posixpath\<close>: the path up to its last slash, without the
  slashes that end it unless it is made of slashes only.
\<close>

definition dirname :: "string \<Rightarrow> string" where
  "dirname p =
     (let head = rev (dropWhile (\<lambda>c. c \<noteq> CHR ''/'') (rev p)) in
      if head \<noteq> [] \<and> \<not> list_all (\<lambda>c. c = CHR ''/'') head
      then rev (dropWhile (\<lambda>c. c = CHR ''/'') (rev head))
      else head)"

text \<open>
  \<^verbatim>\<open>
  for frame in error.iterfind("stack/frame"):
      obj = frame.find("obj")
      if obj is not None and os.path.dirname(obj.text) == self.dir:
          location = frame.find("file"), frame.find("line")
          if None not in location:
              msg.append(": (file: {}, line: {})".format(location[0].text, location[1].text))
          break
  \<close>
  \<^verbatim>\<open>os.path.dirname(None)\<close> raises \<open>TypeError\<close>.
\<close>

fun location_suffix :: "string \<Rightarrow> xml list \<Rightarrow> exn + string" where
  "location_suffix d [] = Inr []"
| "location_suffix d (frame # frames) =
     (case find_elem [''obj''] frame of
        None \<Rightarrow> location_suffix d frames
      | Some obj \<Rightarrow>
          (case elem_text obj of
             None \<Rightarrow> Inl (PyExc ''TypeError'')
           | Some path \<Rightarrow>
               if dirname path = d then
                 (case (find_elem [''file''] frame, find_elem [''line''] frame) of
                    (Some f, Some l) \<Rightarrow>
                      Inr ('': (file: '' @ format_text (elem_text f) @ '', line: ''
                           @ format_text (elem_text l) @ '')'')
                  | _ \<Rightarrow> Inr [])
               else location_suffix d frames))"

text \<open>
  \<^verbatim>\<open>
  kind = error.find("kind").text
  what = error.find("xwhat/text" if kind.startswith("Leak_") else "what").text
  msg = ["\t", what]
  (the loop above)
  msg = "".join(msg)
  \<close>
  An attribute of \<^verbatim>\<open>None\<close> raises \<open>AttributeError\<close>; joining \<^verbatim>\<open>None\<close> raises
  \<open>TypeError\<close>.
\<close>

definition render :: "string \<Rightarrow> xml \<Rightarrow> exn + string" where
  "render d error =
     (case find_elem [''kind''] error of
        None \<Rightarrow> Inl (PyExc ''AttributeError'')
      | Some k \<Rightarrow>
          (case elem_text k of
             None \<Rightarrow> Inl (PyExc ''AttributeError'')
           | Some kind \<Rightarrow>
               (case find_elem (if startswith kind ''Leak_'' then [''xwhat'', ''text'']
                                else [''what'']) error of
                  None \<Rightarrow> Inl (PyExc ''AttributeError'')
                | Some w \<Rightarrow>
                    (case location_suffix d (iterfind [''stack'', ''frame''] error) of
                       Inl e \<Rightarrow> Inl e
                     | Inr suffix \<Rightarrow>
                         (case elem_text w of
                            None \<Rightarrow> Inl (PyExc ''TypeError'')
                          | Some what \<Rightarrow> Inr ([CHR 0x09] @ what @ suffix))))))"

text \<open>
  \<^verbatim>\<open>
  reported = set()
  for error in xml.iterfind("error"):
      (msg, as above)
      if msg not in reported:
          self.log.append(msg)
          reported.add(msg)
  \<close>
\<close>

fun report ::
  "string \<Rightarrow> xml list \<Rightarrow> string list \<Rightarrow> string set \<Rightarrow> exn option \<times> string list \<times> string set" where
  "report d [] lg reported = (None, lg, reported)"
| "report d (error # errors) lg reported =
     (case render d error of
        Inl e \<Rightarrow> (Some e, lg, reported)
      | Inr msg \<Rightarrow>
          if msg \<notin> reported then report d errors (lg @ [msg]) (insert msg reported)
          else report d errors lg reported)"

text \<open>
  \<^verbatim>\<open>
  def _check_valgrind(self):
      xml = ET.ElementTree(file=os.path.join(self.dir, self._valgrind_log))
      self.log.append("checking for valgrind errors... ")
      (the loop above)
      if reported:
          raise Error("valgrind tests failed; rerun with --log for more information.")
  \<close>
  \<open>parse\<close> maps the path of a file that holds a well-formed document to its root
  element; \<^verbatim>\<open>ET.ElementTree\<close> raises for any other path.
\<close>

definition check_valgrind :: "(string \<rightharpoonup> xml) \<Rightarrow> 'p Checks \<Rightarrow> exn option \<times> 'p Checks" where
  "check_valgrind parse self =
     (case dir self of
        None \<Rightarrow> (Some (PyExc ''AttributeError''), self)
      | Some d \<Rightarrow>
          (case parse (path_join d valgrind_log) of
             None \<Rightarrow> (Some (PyExc ''IOError''), self)
           | Some root \<Rightarrow>
               (case report d (iterfind [''error''] root)
                       (log self @ [''checking for valgrind errors... '']) {} of
                  (Some e, lg, reported) \<Rightarrow> (Some e, self\<lparr>log := lg\<rparr>)
                | (None, lg, reported) \<Rightarrow>
                    if reported \<noteq> {}
                    then (Some (Error (Text ''valgrind tests failed; rerun with --log for more information.'')
                                  None FAIL),
                          self\<lparr>log := lg\<rparr>)
                    else (None, self\<lparr>log := lg\<rparr>))))"

text \<open>
  What the deduplication is to produce: the messages of a list that are not in a given
  set, each once, in the order of their first occurrence.
\<close>

fun first_occurrences :: "string list \<Rightarrow> string set \<Rightarrow> string list" where
  "first_occurrences [] seen = []"
| "first_occurrences (m # ms) seen =
     (if m \<notin> seen then m # first_occurrences ms (insert m seen)
      else first_occurrences ms seen)"

section \<open>Sample check bodies\<close>

text \<open>
  For the concrete runs below: a state with the submission copied to \<^verbatim>\<open>/tmp/t/_\<close>
  and the given verdicts recorded, and two bodies: \<^verbatim>\<open>pass\<close>, and \<^verbatim>\<open>raise Error(msg)\<close>, whose
  verdict is the default \<^verbatim>\<open>Checks.FAIL\<close>.
\<close>

definition sample_world :: "(string \<rightharpoonup> verdict) \<Rightarrow> world" where
  "sample_world results =
     \<lparr>test_cases = [], test_results = results, tempdir = ''/tmp/t'',
      fs = [''/tmp/t/_'' \<mapsto> DirNode []], cwd = ''/'', environ = Map.empty\<rparr>"

definition body_pass :: "'p body" where
  "body_pass self w = (None, self, w)"

definition body_raise :: "string \<Rightarrow> 'p body" where
  "body_raise msg self w = (Some (Error (Text msg) None FAIL), self, w)"

text \<open>
  A sample \<^verbatim>\<open>pexpect\<close> for the concrete runs below. The hidden state of the object is
  the text that the process has still to print and whether the process exits after
  printing it. \<^verbatim>\<open>expect_exact\<close> looks for the pattern as a sequence of characters;
  \<^verbatim>\<open>expect\<close> reads a \<^verbatim>\<open>.\<close> of the pattern as any character but a newline, as a
  regular expression does, and every other character as itself. When the pattern is
  not found, \<^verbatim>\<open>EOF\<close> is raised if the process exits and \<^verbatim>\<open>TIMEOUT\<close> if it does not.
\<close>

fun match_here :: "bool \<Rightarrow> string \<Rightarrow> string \<Rightarrow> bool" where
  "match_here wild [] s = True"
| "match_here wild (p # ps) [] = False"
| "match_here wild (p # ps) (x # xs) =
     ((p = x \<or> (wild \<and> p = CHR ''.'' \<and> x \<noteq> CHR 0x0A)) \<and> match_here wild ps xs)"

fun find_match :: "bool \<Rightarrow> string \<Rightarrow> string \<Rightarrow> string \<Rightarrow> (string \<times> string \<times> string) option" where
  "find_match wild p acc [] = (if p = [] then Some (acc, [], []) else None)"
| "find_match wild p acc (x # xs) =
     (if match_here wild p (x # xs)
      then Some (acc, take (length p) (x # xs), drop (length p) (x # xs))
      else find_match wild p (acc @ [x]) xs)"

definition sample_search ::
  "bool \<Rightarrow> pyobj \<Rightarrow> int \<Rightarrow> (string \<times> bool) spawn \<Rightarrow> exn option \<times> (string \<times> bool) spawn" where
  "sample_search wild pat timeout c =
     (let data = buffer c @ fst (hidden c); exits = snd (hidden c);
          at_eof = c\<lparr>before_text := data, after := AfterEOF, buffer := [], hidden := ([], exits)\<rparr>;
          at_timeout = c\<lparr>before_text := data, after := AfterTIMEOUT, buffer := data,
                         hidden := ([], exits)\<rparr>
      in case pat of
           Str p \<Rightarrow>
             (case find_match wild p [] data of
                Some (b, m, rest) \<Rightarrow>
                  (None, c\<lparr>before_text := b, after := AfterStr m, buffer := rest,
                            hidden := ([], exits)\<rparr>)
              | None \<Rightarrow> if exits then (Some ExcEOF, at_eof) else (Some ExcTIMEOUT, at_timeout))
         | EOF \<Rightarrow> if exits then (None, at_eof) else (Some ExcTIMEOUT, at_timeout)
         | StrList xs \<Rightarrow> (Some (PyExc ''TypeError''), c))"

definition sample_process :: "string \<Rightarrow> bool \<Rightarrow> (string \<times> bool) spawn" where
  "sample_process printed exits =
     \<lparr>before_text = [], after = AfterNone, buffer = [], spawn_exitstatus = None,
      hidden = (printed, exits)\<rparr>"

definition sample_pexpect :: "(string \<times> bool) pexpect" where
  "sample_pexpect =
     \<lparr>expect = sample_search True, expect_exact = sample_search False,
      spawnu = (\<lambda>cmd env environ. sample_process [] True),
      wait = (\<lambda>timeout self. (None, self))\<rparr>"

text \<open>
  A sample report for the concrete run below: one leak of the program
  \<^verbatim>\<open>/tmp/t/leak/hello\<close>, at line 5 of \<^verbatim>\<open>hello.c\<close>, that the tool lists twice.
\<close>

definition sample_leak :: xml where
  "sample_leak =
     Element ''error'' None
       [Element ''kind'' (Some ''Leak_DefinitelyLost'') [],
        Element ''xwhat'' None [Element ''text'' (Some ''40 bytes lost'') []],
        Element ''stack'' None
          [Element ''frame'' None [Element ''obj'' (Some ''/usr/lib/libc.so'') []],
           Element ''frame'' None
             [Element ''obj'' (Some ''/tmp/t/leak/hello'') [],
              Element ''file'' (Some ''hello.c'') [], Element ''line'' (Some ''5'') []]]]"

definition sample_report :: xml where
  "sample_report = Element ''valgrindoutput'' None [sample_leak, sample_leak]"

section \<open>Properties of the rendering\<close>

lemma strip_quotes: "butlast (tl (py_repr s)) = escaped s"
  by (simp add: py_repr_def butlast_append)

lemma repr_char_plain:
  assumes "py_isprintable c" "c \<noteq> CHR 0x5C" "c \<noteq> q"
  shows "repr_char q c = [c]"
proof -
  have "c \<noteq> CHR 0x09" "c \<noteq> CHR 0x0A" "c \<noteq> CHR 0x0D"
    using assms(1) by (auto simp: py_isprintable_def)
  with assms show ?thesis
    by (simp add: repr_char_def)
qed

lemma concat_singletons: "(\<And>c. c \<in> set s \<Longrightarrow> f c = [c]) \<Longrightarrow> concat (map f s) = s"
  by (induction s) simp_all

lemma escaped_unquoted:
  assumes "\<forall>c \<in> set s. py_isprintable c \<and> c \<noteq> CHR 0x5C"
    and "CHR 0x27 \<notin> set s \<or> CHR 0x22 \<notin> set s"
  shows "escaped s = s"
proof -
  have "repr_quote s \<notin> set s"
    using assms(2) by (auto simp: repr_quote_def)
  then have "\<And>c. c \<in> set s \<Longrightarrow> repr_char (repr_quote s) c = [c]"
    using assms(1) by (intro repr_char_plain) auto
  then show ?thesis
    unfolding escaped_def by (rule concat_singletons)
qed

text \<open>
  C8, as the program has it. The rendering is the escaped text of the string (what
  \<^verbatim>\<open>repr\<close> puts between its quotes), cut to its first 15 characters and followed by
  \<^verbatim>\<open>...\<close> when the escaped text has more than 15 characters, between double quotes.
  For a string of printable characters with no backslash that does not hold both a
  single and a double quote, the escaped text is the string, so the rendering is the
  string between double quotes when it has at most 15 characters, and its first 15
  characters followed by \<^verbatim>\<open>...\<close> between double quotes when it has more.
\<close>

theorem raw_truncates_escaped_text:
  "raw (Str s) = [CHR 0x22] @ (if length (escaped s) > 15 then take 15 (escaped s) @ ''...''
                               else escaped s) @ [CHR 0x22]
   \<and> ((\<forall>c \<in> set s. py_isprintable c \<and> c \<noteq> CHR 0x5C)
        \<and> (CHR 0x27 \<notin> set s \<or> CHR 0x22 \<notin> set s)
      \<longrightarrow> (length s \<le> 15 \<longrightarrow> raw (Str s) = [CHR 0x22] @ s @ [CHR 0x22])
        \<and> (length s > 15 \<longrightarrow> raw (Str s) = [CHR 0x22] @ take 15 s @ ''...'' @ [CHR 0x22]))"
proof (intro conjI impI)
  show "raw (Str s) = [CHR 0x22] @ (if length (escaped s) > 15 then take 15 (escaped s) @ ''...''
                               else escaped s) @ [CHR 0x22]"
    by (simp add: raw_def strip_quotes cut15_def)
next
  assume "(\<forall>c \<in> set s. py_isprintable c \<and> c \<noteq> CHR 0x5C)
           \<and> (CHR 0x27 \<notin> set s \<or> CHR 0x22 \<notin> set s)"
    and "length s \<le> 15"
  then show "raw (Str s) = [CHR 0x22] @ s @ [CHR 0x22]"
    by (simp add: raw_def strip_quotes cut15_def escaped_unquoted)
next
  assume "(\<forall>c \<in> set s. py_isprintable c \<and> c \<noteq> CHR 0x5C)
           \<and> (CHR 0x27 \<notin> set s \<or> CHR 0x22 \<notin> set s)"
    and "length s > 15"
  then show "raw (Str s) = [CHR 0x22] @ take 15 s @ ''...'' @ [CHR 0x22]"
    by (simp add: raw_def strip_quotes cut15_def escaped_unquoted)
qed

theorem raw_truncates_escaped_text_witness:
  "raw (Str ''Enter a number: '') = [CHR 0x22] @ ''Enter a number:'' @ ''...'' @ [CHR 0x22]
   \<and> raw (Str ''it's 5'') = [CHR 0x22] @ ''it's 5'' @ [CHR 0x22]"
proof -
  have p: "\<forall>c \<in> set ''Enter a number: ''. py_isprintable c \<and> c \<noteq> CHR 0x5C"
    by (simp add: py_isprintable_def)
  have q: "\<forall>c \<in> set ''it's 5''. py_isprintable c \<and> c \<noteq> CHR 0x5C"
    by (simp add: py_isprintable_def)
  have a: "raw (Str ''Enter a number: '') = [CHR 0x22] @ ''Enter a number:'' @ ''...'' @ [CHR 0x22]"
    using raw_truncates_escaped_text [of "''Enter a number: ''", THEN conjunct2] p by simp
  have b: "raw (Str ''it's 5'') = [CHR 0x22] @ ''it's 5'' @ [CHR 0x22]"
    using raw_truncates_escaped_text [of "''it's 5''", THEN conjunct2] q by simp
  from a b show ?thesis ..
qed

text \<open>
  C8, as the specification has it, fails. A string of 15 characters is at the threshold,
  yet it is rendered cut: its newline is escaped to two characters before the length is
  taken, and the cut falls between the backslash and the \<^verbatim>\<open>n\<close>.
\<close>

theorem raw_at_threshold_counterexample:
  "length (''aaaaaaaaaaaaaa'' @ [CHR 0x0A]) = 15
   \<and> raw (Str (''aaaaaaaaaaaaaa'' @ [CHR 0x0A]))
       = [CHR 0x22] @ ''aaaaaaaaaaaaaa'' @ [CHR 0x5C] @ ''...'' @ [CHR 0x22]
   \<and> raw (Str (''aaaaaaaaaaaaaa'' @ [CHR 0x0A])) \<noteq> ''aaaaaaaaaaaaaa'' @ [CHR 0x0A]"
  by (simp add: raw_def py_repr_def escaped_def repr_quote_def repr_char_def cut15_def
      py_isprintable_def)

section \<open>Properties of the dependency gate\<close>

lemma wrapper_skip:
  assumes "truthy dependency" and "dict_get (test_results w) dependency \<noteq> PASS"
  shows "wrapper fname dependency func self w =
           (None,
            self\<lparr>result := SKIP,
                 rationale := Text ''can't check until a frown turns upside down''\<rparr>,
            w\<lparr>test_results := (test_results w)(fname \<mapsto> SKIP)\<rparr>)"
  using assms by (simp add: wrapper_def)

lemma verdicts_distinct: "FAIL \<noteq> PASS" "SKIP \<noteq> PASS" "FAIL \<noteq> SKIP"
  by (simp_all add: PASS_def FAIL_def SKIP_def)

text \<open>
  C1. A check whose dependency is set and whose dependency's recorded verdict is not
  PASS returns without an exception, with verdict SKIP in the instance and in
  \<^verbatim>\<open>config.test_results\<close>. The body is not run: whatever the body is, the outcome is
  the same. No directory is made: the file system and the current directory are those
  before the call, and the instance's \<^verbatim>\<open>dir\<close> is not set.
\<close>

theorem unmet_dependency_skips:
  assumes "truthy dependency" and "dict_get (test_results w) dependency \<noteq> PASS"
  shows "\<exists>self' w'. wrapper fname dependency func self w = (None, self', w')
           \<and> result self' = SKIP \<and> test_results w' fname = Some SKIP
           \<and> fs w' = fs w \<and> cwd w' = cwd w \<and> dir self' = dir self
           \<and> (\<forall>body. wrapper fname dependency body self w = (None, self', w'))"
  using assms by (simp add: wrapper_skip)

theorem unmet_dependency_skips_witness:
  "truthy (Some ''compiles'')
   \<and> dict_get (test_results (sample_world [''compiles'' \<mapsto> FAIL])) (Some ''compiles'') \<noteq> PASS
   \<and> (\<exists>self' w'.
        wrapper ''runs'' (Some ''compiles'') body_pass (new_Checks ''runs'' :: unit Checks)
          (sample_world [''compiles'' \<mapsto> FAIL]) = (None, self', w')
        \<and> result self' = SKIP \<and> test_results w' ''runs'' = Some SKIP
        \<and> fs w' = fs (sample_world [''compiles'' \<mapsto> FAIL])
        \<and> cwd w' = cwd (sample_world [''compiles'' \<mapsto> FAIL])
        \<and> dir self' = dir (new_Checks ''runs'' :: unit Checks))"
proof -
  have t: "truthy (Some ''compiles'')"
    by (simp add: truthy_def)
  have d: "dict_get (test_results (sample_world [''compiles'' \<mapsto> FAIL])) (Some ''compiles'')
             \<noteq> PASS"
    by (simp add: sample_world_def dict_get_def verdicts_distinct)
  from unmet_dependency_skips [OF t d, of "''runs''" body_pass "new_Checks ''runs''"]
  show ?thesis
    using t d by blast
qed

text \<open>
  C7, as the program has it: the rationale of a check skipped for its dependency is
  \<^verbatim>\<open>can't check until a frown turns upside down\<close>.
\<close>

theorem skip_rationale_is_frown:
  assumes "truthy dependency" and "dict_get (test_results w) dependency \<noteq> PASS"
  shows "rationale (fst (snd (wrapper fname dependency func self w)))
           = Text ''can't check until a frown turns upside down''"
  using assms by (simp add: wrapper_skip)

theorem skip_rationale_is_frown_witness:
  "truthy (Some ''compiles'')
   \<and> dict_get (test_results (sample_world [''compiles'' \<mapsto> SKIP])) (Some ''compiles'') \<noteq> PASS
   \<and> rationale (fst (snd (wrapper ''runs'' (Some ''compiles'') body_pass
        (new_Checks ''runs'' :: unit Checks) (sample_world [''compiles'' \<mapsto> SKIP]))))
       = Text ''can't check until a frown turns upside down''"
proof -
  have t: "truthy (Some ''compiles'')"
    by (simp add: truthy_def)
  have d: "dict_get (test_results (sample_world [''compiles'' \<mapsto> SKIP])) (Some ''compiles'')
             \<noteq> PASS"
    by (simp add: sample_world_def dict_get_def verdicts_distinct)
  from skip_rationale_is_frown [OF t d, of "''runs''" body_pass "new_Checks ''runs''"]
  show ?thesis
    using t d by blast
qed

text \<open>
  C7, as the specification has it, fails: with the dependency recorded as FAIL, the
  rationale of the skipped check is not \<^verbatim>\<open>upstream check did not pass\<close>.
\<close>

theorem skip_rationale_counterexample:
  "result (fst (snd (wrapper ''runs'' (Some ''compiles'') body_pass
      (new_Checks ''runs'' :: unit Checks) (sample_world [''compiles'' \<mapsto> FAIL])))) = SKIP
   \<and> rationale (fst (snd (wrapper ''runs'' (Some ''compiles'') body_pass
      (new_Checks ''runs'' :: unit Checks) (sample_world [''compiles'' \<mapsto> FAIL]))))
     \<noteq> Text ''upstream check did not pass''"
  by (simp add: wrapper_def truthy_def dict_get_def verdicts_distinct sample_world_def)

text \<open>
  C9. A dependency that is set and has no entry in \<^verbatim>\<open>config.test_results\<close> is looked
  up as \<^verbatim>\<open>None\<close>, which is SKIP. The check is then skipped and its body is not run,
  and the instance it leaves is the one it would leave had the dependency been
  recorded as FAIL.
\<close>

theorem missing_dependency_skips:
  assumes "d \<noteq> []" and "test_results w d = None"
  shows "dict_get (test_results w) (Some d) = SKIP
         \<and> (\<exists>self' w'. (\<forall>body. wrapper fname (Some d) body self w = (None, self', w'))
              \<and> result self' = SKIP \<and> test_results w' fname = Some SKIP \<and> fs w' = fs w
              \<and> (\<forall>body. fst (snd (wrapper fname (Some d) body self
                     (w\<lparr>test_results := (test_results w)(d \<mapsto> FAIL)\<rparr>))) = self'))"
proof -
  have g: "dict_get (test_results w) (Some d) = SKIP"
    using assms(2) by (simp add: dict_get_def SKIP_def)
  have t: "truthy (Some d)"
    using assms(1) by (simp add: truthy_def)
  have f: "dict_get (test_results (w\<lparr>test_results := (test_results w)(d \<mapsto> FAIL)\<rparr>)) (Some d)
             \<noteq> PASS"
    by (simp add: dict_get_def verdicts_distinct)
  show ?thesis
    using g t by (simp add: wrapper_skip [OF t] wrapper_skip [OF t f] verdicts_distinct)
qed

theorem missing_dependency_skips_witness:
  "''compiles'' \<noteq> []
   \<and> test_results (sample_world Map.empty) ''compiles'' = None
   \<and> dict_get (test_results (sample_world Map.empty)) (Some ''compiles'') = SKIP
   \<and> (\<exists>self' w'. (\<forall>body. wrapper ''runs'' (Some ''compiles'') body
          (new_Checks ''runs'' :: unit Checks) (sample_world Map.empty) = (None, self', w'))
        \<and> result self' = SKIP \<and> test_results w' ''runs'' = Some SKIP)"
proof -
  have n: "''compiles'' \<noteq> []"
    by simp
  have m: "test_results (sample_world Map.empty) ''compiles'' = None"
    by (simp add: sample_world_def)
  from missing_dependency_skips [OF n m, of "''runs''" "new_Checks ''runs'' :: unit Checks"]
  show ?thesis
    using n m by blast
qed

text \<open>
  C6, as the program has it: \<^verbatim>\<open>check\<close> appends the name to \<^verbatim>\<open>config.test_cases\<close>
  and returns the wrapper, whether or not the name is in the list already; the name is
  then in the list once more than before.
\<close>

theorem check_appends_name:
  "\<exists>w'. check dependency fname func w = Inr (wrapper fname dependency func, w')
        \<and> test_cases w' = test_cases w @ [fname]
        \<and> count_list (test_cases w') fname = Suc (count_list (test_cases w) fname)"
  by (simp add: check_def)

text \<open>
  C6, as the specification has it, fails: declaring \<^verbatim>\<open>exists\<close> when \<^verbatim>\<open>exists\<close> is
  declared already raises nothing and lists the name twice.
\<close>

theorem duplicate_name_counterexample:
  "check None ''exists'' (body_pass :: unit body)
     ((sample_world Map.empty)\<lparr>test_cases := [''exists'']\<rparr>)
   = Inr (wrapper ''exists'' None body_pass,
          (sample_world Map.empty)\<lparr>test_cases := [''exists'', ''exists'']\<rparr>)"
  by (simp add: check_def)

section \<open>A chain of three checks\<close>

lemma wrapper_runs:
  assumes "dependency = None \<or> dependency \<noteq> Some [] \<and> dict_get (test_results w) dependency = PASS"
    and "fs w (path_join (tempdir w) (or_underscore dependency)) = Some (DirNode entries)"
    and "fs w (path_join (tempdir w) (testMethodName self)) = None"
  shows "wrapper fname dependency func self w =
           (let dst_dir = path_join (tempdir w) (testMethodName self) in
            case func (self\<lparr>dir := Some dst_dir\<rparr>)
                   (w\<lparr>fs := (fs w)(dst_dir \<mapsto> DirNode entries), cwd := dst_dir\<rparr>) of
              (Some (Error r h res), self2, w2) \<Rightarrow>
                (None, self2\<lparr>rationale := r, helpers := h, result := res\<rparr>,
                 w2\<lparr>test_results := (test_results w2)(fname \<mapsto> res)\<rparr>)
            | (Some e, self2, w2) \<Rightarrow> (Some e, self2, w2)
            | (None, self2, w2) \<Rightarrow>
                (None, self2\<lparr>result := PASS\<rparr>,
                 w2\<lparr>test_results := (test_results w2)(fname \<mapsto> PASS)\<rparr>))"
  using assms by (auto simp: wrapper_def truthy_def copytree_def Let_def split: option.splits)

lemma run_tests_returned:
  assumes "cls c = Some (dependency, func)"
    and "wrapper c dependency func (new_Checks c) w = (None, test, w1)"
  shows "run_tests cls (c # cs) w results = run_tests cls cs w1 (results @ [tearDown test])"
  using assms by simp

text \<open>
  C4. Three checks are declared in the order \<open>a\<close>, \<open>b\<close>, \<open>c\<close>: \<open>a\<close> has no
  dependency, \<open>b\<close> depends on \<open>a\<close>, \<open>c\<close> depends on \<open>b\<close>. The submission is in its
  directory, \<open>a\<close>'s directory does not exist yet, and the body of \<open>a\<close> raises an
  \<^verbatim>\<open>Error\<close> whose verdict is FAIL. Then the suite runs to its end and the verdicts,
  in the results and in \<^verbatim>\<open>config.test_results\<close>, are FAIL, SKIP, SKIP. The result of
  \<open>a\<close> is the instance that its body left, with the rationale and the helpers of the
  \<^verbatim>\<open>Error\<close> that the body raised; the results of \<open>b\<close> and \<open>c\<close> are fresh instances
  with the verdict SKIP, the rationale of a skipped check and no directory. The skips
  come from the recorded verdicts: from any state in which the dependency of \<open>b\<close> or
  of \<open>c\<close> is recorded PASS, with the dependency's directory there and the check's own
  not yet, the wrapper copies the directory, runs the body of the check in it and
  records what the body did.
\<close>

theorem skip_propagates_through_chain:
  assumes names: "a \<noteq> b" "a \<noteq> c" "b \<noteq> c" "a \<noteq> []" "b \<noteq> []"
    and order: "test_cases w = [a, b, c]"
    and decl: "cls a = Some (None, fa :: 'p body)" "cls b = Some (Some a, fb)" "cls c = Some (Some b, fc)"
    and src: "fs w (path_join (tempdir w) ''_'') = Some (DirNode entries)"
    and dst: "fs w (path_join (tempdir w) a) = None"
    and fails: "fa ((new_Checks a)\<lparr>dir := Some (path_join (tempdir w) a)\<rparr>)
                  (w\<lparr>fs := (fs w)(path_join (tempdir w) a \<mapsto> DirNode entries),
                     cwd := path_join (tempdir w) a\<rparr>)
                = (Some (Error r h FAIL), self1, w1)"
  shows "(\<exists>ta tb tc w'. run_suite cls w = Inr ([ta, tb, tc], w')
           \<and> result ta = FAIL \<and> result tb = SKIP \<and> result tc = SKIP
           \<and> test_results w' a = Some FAIL \<and> test_results w' b = Some SKIP
           \<and> test_results w' c = Some SKIP
           \<and> ta = self1\<lparr>rationale := r, helpers := h, result := FAIL, children := []\<rparr>
           \<and> rationale ta = r \<and> helpers ta = h
           \<and> tb = (new_Checks b)\<lparr>result := SKIP,
                     rationale := Text ''can't check until a frown turns upside down''\<rparr>
           \<and> tc = (new_Checks c)\<lparr>result := SKIP,
                     rationale := Text ''can't check until a frown turns upside down''\<rparr>
           \<and> dir tb = None \<and> dir tc = None)
         \<and> (\<forall>n d f self2 w2 es.
               (n = b \<and> d = a \<and> f = fb \<or> n = c \<and> d = b \<and> f = fc)
               \<and> dict_get (test_results w2) (Some d) = PASS
               \<and> fs w2 (path_join (tempdir w2) d) = Some (DirNode es)
               \<and> fs w2 (path_join (tempdir w2) (testMethodName self2)) = None
               \<longrightarrow> wrapper n (Some d) f self2 w2 =
                    (let dst_dir = path_join (tempdir w2) (testMethodName self2) in
                     case f (self2\<lparr>dir := Some dst_dir\<rparr>)
                            (w2\<lparr>fs := (fs w2)(dst_dir \<mapsto> DirNode es), cwd := dst_dir\<rparr>) of
                       (Some (Error r2 h2 res), self3, w3) \<Rightarrow>
                         (None, self3\<lparr>rationale := r2, helpers := h2, result := res\<rparr>,
                          w3\<lparr>test_results := (test_results w3)(n \<mapsto> res)\<rparr>)
                     | (Some e, self3, w3) \<Rightarrow> (Some e, self3, w3)
                     | (None, self3, w3) \<Rightarrow>
                         (None, self3\<lparr>result := PASS\<rparr>,
                          w3\<lparr>test_results := (test_results w3)(n \<mapsto> PASS)\<rparr>)))"
proof (rule conjI)
  let ?frown = "Text ''can't check until a frown turns upside down''"
  let ?w1 = "w1\<lparr>test_results := (test_results w1)(a \<mapsto> FAIL)\<rparr>"
  let ?w2 = "?w1\<lparr>test_results := (test_results ?w1)(b \<mapsto> SKIP)\<rparr>"
  let ?w3 = "?w2\<lparr>test_results := (test_results ?w2)(c \<mapsto> SKIP)\<rparr>"
  let ?ta = "tearDown (self1\<lparr>rationale := r, helpers := h, result := FAIL\<rparr>)"
  let ?tb = "tearDown ((new_Checks b)\<lparr>result := SKIP, rationale := ?frown\<rparr>)"
  let ?tc = "tearDown ((new_Checks c)\<lparr>result := SKIP, rationale := ?frown\<rparr>)"
  have ra: "wrapper a None fa (new_Checks a) w
              = (None, self1\<lparr>rationale := r, helpers := h, result := FAIL\<rparr>, ?w1)"
    using wrapper_runs [of None w entries "new_Checks a" a fa] src dst fails
    by (simp add: new_Checks_def or_underscore_def)
  have rb: "wrapper b (Some a) fb (new_Checks b) ?w1
              = (None, (new_Checks b)\<lparr>result := SKIP, rationale := ?frown\<rparr>, ?w2)"
    using names by (intro wrapper_skip) (simp_all add: truthy_def dict_get_def verdicts_distinct)
  have rc: "wrapper c (Some b) fc (new_Checks c) ?w2
              = (None, (new_Checks c)\<lparr>result := SKIP, rationale := ?frown\<rparr>, ?w3)"
    using names by (intro wrapper_skip) (simp_all add: truthy_def dict_get_def verdicts_distinct)
  have "run_suite cls w = run_tests cls [a, b, c] w []"
    using order decl by (simp add: run_suite_def)
  also have "\<dots> = run_tests cls [b, c] ?w1 ([] @ [?ta])"
    by (rule run_tests_returned [where cls = cls and c = a, OF decl(1) ra])
  also have "\<dots> = run_tests cls [c] ?w2 (([] @ [?ta]) @ [?tb])"
    by (rule run_tests_returned [where cls = cls and c = b, OF decl(2) rb])
  also have "\<dots> = run_tests cls [] ?w3 ((([] @ [?ta]) @ [?tb]) @ [?tc])"
    by (rule run_tests_returned [where cls = cls and c = c, OF decl(3) rc])
  finally have run: "run_suite cls w = Inr ([?ta, ?tb, ?tc], ?w3)"
    by simp
  show "\<exists>ta tb tc w'. run_suite cls w = Inr ([ta, tb, tc], w')
           \<and> result ta = FAIL \<and> result tb = SKIP \<and> result tc = SKIP
           \<and> test_results w' a = Some FAIL \<and> test_results w' b = Some SKIP
           \<and> test_results w' c = Some SKIP
           \<and> ta = self1\<lparr>rationale := r, helpers := h, result := FAIL, children := []\<rparr>
           \<and> rationale ta = r \<and> helpers ta = h
           \<and> tb = (new_Checks b)\<lparr>result := SKIP, rationale := ?frown\<rparr>
           \<and> tc = (new_Checks c)\<lparr>result := SKIP, rationale := ?frown\<rparr>
           \<and> dir tb = None \<and> dir tc = None"
    unfolding run using names by (simp add: tearDown_def new_Checks_def)
next
  show "\<forall>n d f self2 w2 es.
               (n = b \<and> d = a \<and> f = fb \<or> n = c \<and> d = b \<and> f = fc)
               \<and> dict_get (test_results w2) (Some d) = PASS
               \<and> fs w2 (path_join (tempdir w2) d) = Some (DirNode es)
               \<and> fs w2 (path_join (tempdir w2) (testMethodName self2)) = None
               \<longrightarrow> wrapper n (Some d) f self2 w2 =
                    (let dst_dir = path_join (tempdir w2) (testMethodName self2) in
                     case f (self2\<lparr>dir := Some dst_dir\<rparr>)
                            (w2\<lparr>fs := (fs w2)(dst_dir \<mapsto> DirNode es), cwd := dst_dir\<rparr>) of
                       (Some (Error r2 h2 res), self3, w3) \<Rightarrow>
                         (None, self3\<lparr>rationale := r2, helpers := h2, result := res\<rparr>,
                          w3\<lparr>test_results := (test_results w3)(n \<mapsto> res)\<rparr>)
                     | (Some e, self3, w3) \<Rightarrow> (Some e, self3, w3)
                     | (None, self3, w3) \<Rightarrow>
                         (None, self3\<lparr>result := PASS\<rparr>,
                          w3\<lparr>test_results := (test_results w3)(n \<mapsto> PASS)\<rparr>))"
  proof (intro allI impI)
    fix n d f and self2 :: "'p Checks" and w2 :: world and es
    assume h: "(n = b \<and> d = a \<and> f = fb \<or> n = c \<and> d = b \<and> f = fc)
               \<and> dict_get (test_results w2) (Some d) = PASS
               \<and> fs w2 (path_join (tempdir w2) d) = Some (DirNode es)
               \<and> fs w2 (path_join (tempdir w2) (testMethodName self2)) = None"
    then have "d \<noteq> []"
      using names by auto
    then show "wrapper n (Some d) f self2 w2 =
                    (let dst_dir = path_join (tempdir w2) (testMethodName self2) in
                     case f (self2\<lparr>dir := Some dst_dir\<rparr>)
                            (w2\<lparr>fs := (fs w2)(dst_dir \<mapsto> DirNode es), cwd := dst_dir\<rparr>) of
                       (Some (Error r2 h2 res), self3, w3) \<Rightarrow>
                         (None, self3\<lparr>rationale := r2, helpers := h2, result := res\<rparr>,
                          w3\<lparr>test_results := (test_results w3)(n \<mapsto> res)\<rparr>)
                     | (Some e, self3, w3) \<Rightarrow> (Some e, self3, w3)
                     | (None, self3, w3) \<Rightarrow>
                         (None, self3\<lparr>result := PASS\<rparr>,
                          w3\<lparr>test_results := (test_results w3)(n \<mapsto> PASS)\<rparr>))"
      using h by (intro wrapper_runs) (simp_all add: or_underscore_def)
  qed
qed

theorem skip_propagates_through_chain_witness:
  "(\<exists>ta tb tc w'.
      run_suite [''A'' \<mapsto> (None, body_raise ''no''), ''B'' \<mapsto> (Some ''A'', body_pass),
                 ''C'' \<mapsto> (Some ''B'', body_pass)]
        ((sample_world Map.empty)\<lparr>test_cases := [''A'', ''B'', ''C'']\<rparr>)
        = Inr ([ta, tb, tc :: unit Checks], w')
      \<and> result ta = FAIL \<and> result tb = SKIP \<and> result tc = SKIP
      \<and> test_results w' ''A'' = Some FAIL \<and> test_results w' ''B'' = Some SKIP
      \<and> test_results w' ''C'' = Some SKIP
      \<and> rationale ta = Text ''no'' \<and> dir ta = Some ''/tmp/t/A''
      \<and> dir tb = None \<and> dir tc = None)
   \<and> wrapper ''C'' (Some ''B'') body_pass (new_Checks ''C'' :: unit Checks)
        ((sample_world [''B'' \<mapsto> PASS])\<lparr>fs := [''/tmp/t/B'' \<mapsto> DirNode []]\<rparr>)
      = (None,
         (new_Checks ''C'')\<lparr>dir := Some ''/tmp/t/C'', result := PASS\<rparr>,
         (sample_world [''B'' \<mapsto> PASS])
           \<lparr>fs := [''/tmp/t/B'' \<mapsto> DirNode [], ''/tmp/t/C'' \<mapsto> DirNode []],
            cwd := ''/tmp/t/C'', test_results := [''B'' \<mapsto> PASS, ''C'' \<mapsto> PASS]\<rparr>)"
proof -
  let ?w = "(sample_world Map.empty)\<lparr>test_cases := [''A'', ''B'', ''C'']\<rparr>"
  let ?cls = "[''A'' \<mapsto> (None, body_raise ''no''), ''B'' \<mapsto> (Some ''A'', body_pass),
               ''C'' \<mapsto> (Some ''B'', body_pass :: unit body)]"
  let ?a = "(new_Checks ''A'' :: unit Checks)\<lparr>dir := Some (path_join (tempdir ?w) ''A'')\<rparr>"
  let ?wa = "?w\<lparr>fs := (fs ?w)(path_join (tempdir ?w) ''A'' \<mapsto> DirNode []),
                 cwd := path_join (tempdir ?w) ''A''\<rparr>"
  let ?w2 = "(sample_world [''B'' \<mapsto> PASS])\<lparr>fs := [''/tmp/t/B'' \<mapsto> DirNode []]\<rparr>"
  have names: "''A'' \<noteq> ''B''" "''A'' \<noteq> ''C''" "''B'' \<noteq> ''C''" "''A'' \<noteq> []" "''B'' \<noteq> []"
    by simp_all
  have order: "test_cases ?w = [''A'', ''B'', ''C'']"
    by simp
  have decl: "?cls ''A'' = Some (None, body_raise ''no'')" "?cls ''B'' = Some (Some ''A'', body_pass)"
    "?cls ''C'' = Some (Some ''B'', body_pass)"
    by simp_all
  have src: "fs ?w (path_join (tempdir ?w) ''_'') = Some (DirNode [])"
    by (simp add: sample_world_def path_join_def)
  have dst: "fs ?w (path_join (tempdir ?w) ''A'') = None"
    by (simp add: sample_world_def path_join_def)
  have fails: "body_raise ''no'' ?a ?wa = (Some (Error (Text ''no'') None FAIL), ?a, ?wa)"
    by (simp add: body_raise_def)
  note chain = skip_propagates_through_chain [where cls = ?cls and w = ?w and fa = "body_raise ''no''"
      and fb = body_pass and fc = body_pass and entries = "[]" and ?self1.0 = ?a and ?w1.0 = ?wa,
      OF names order decl src dst fails]
  have passed: "(''C'' = ''B'' \<and> ''B'' = ''A'' \<and> body_pass = (body_pass :: unit body)
                  \<or> ''C'' = ''C'' \<and> ''B'' = ''B'' \<and> body_pass = (body_pass :: unit body))
                \<and> dict_get (test_results ?w2) (Some ''B'') = PASS
                \<and> fs ?w2 (path_join (tempdir ?w2) ''B'') = Some (DirNode [])
                \<and> fs ?w2 (path_join (tempdir ?w2) (testMethodName (new_Checks ''C'' :: unit Checks)))
                    = None"
    by (simp add: sample_world_def path_join_def dict_get_def new_Checks_def)
  have first: "\<exists>ta tb tc w'. run_suite ?cls ?w = Inr ([ta, tb, tc :: unit Checks], w')
      \<and> result ta = FAIL \<and> result tb = SKIP \<and> result tc = SKIP
      \<and> test_results w' ''A'' = Some FAIL \<and> test_results w' ''B'' = Some SKIP
      \<and> test_results w' ''C'' = Some SKIP
      \<and> rationale ta = Text ''no'' \<and> dir ta = Some ''/tmp/t/A''
      \<and> dir tb = None \<and> dir tc = None"
    using chain [THEN conjunct1] by (auto simp: sample_world_def path_join_def)
  have second: "wrapper ''C'' (Some ''B'') body_pass (new_Checks ''C'' :: unit Checks) ?w2
      = (None,
         (new_Checks ''C'')\<lparr>dir := Some ''/tmp/t/C'', result := PASS\<rparr>,
         (sample_world [''B'' \<mapsto> PASS])
           \<lparr>fs := [''/tmp/t/B'' \<mapsto> DirNode [], ''/tmp/t/C'' \<mapsto> DirNode []],
            cwd := ''/tmp/t/C'', test_results := [''B'' \<mapsto> PASS, ''C'' \<mapsto> PASS]\<rparr>)"
    using chain [THEN conjunct2, rule_format, OF passed]
    by (simp add: sample_world_def path_join_def body_pass_def new_Checks_def Let_def)
  from first second show ?thesis ..
qed

section \<open>Properties of Child.stdout\<close>

lemma stdout_expecting:
  assumes "outp \<noteq> NoOutput" and "read_output files outp = Inr out"
    and "matcher px outp (pattern out) t (child self) = (r, c)"
  shows "fst (stdout px files outp str_output t lg self) =
           (case r of
              Some ExcEOF \<Rightarrow>
                (case captured c of
                   Inl e \<Rightarrow> Inl e
                 | Inr res \<Rightarrow> Inl (Error (Mis (Mismatch (Str (label str_output out))
                                                   (Str (crlf_to_lf res)))) None FAIL))
            | Some ExcTIMEOUT \<Rightarrow>
                Inl (Error (Text (''timed out while waiting for ''
                                  @ raw (Str (label str_output out)))) None FAIL)
            | Some e \<Rightarrow> Inl e
            | None \<Rightarrow>
                (if out = EOF \<and> before_text c \<noteq> []
                 then Inl (Error (Mis (Mismatch EOF (Str (crlf_to_lf (before_text c))))) None FAIL)
                 else Inr Self))"
  using assms by (simp add: stdout_def Let_def split: option.splits exn.splits sum.splits)

text \<open>
  C3. When the chosen matcher raises \<^verbatim>\<open>TIMEOUT\<close>, \<^verbatim>\<open>stdout\<close> raises the \<^verbatim>\<open>Error\<close>
  whose rationale is the text \<^verbatim>\<open>timed out while waiting for\<close> followed by the rendering
  of the expectation's label. When it raises \<^verbatim>\<open>EOF\<close>, \<^verbatim>\<open>stdout\<close> raises an \<^verbatim>\<open>Error\<close>
  whose rationale is the \<^verbatim>\<open>Mismatch\<close> of the label against what was captured, its line
  ends normalised. When \<^verbatim>\<open>EOF\<close> was expected and the matcher returns with output before
  the end, \<^verbatim>\<open>stdout\<close> raises an \<^verbatim>\<open>Error\<close> whose rationale is the \<^verbatim>\<open>Mismatch\<close> of the
  sentinel \<^verbatim>\<open>EOF\<close> against that output. The first rationale is a text and the other two
  are \<^verbatim>\<open>Mismatch\<close> values.
\<close>

theorem stdout_failure_modes:
  assumes "outp \<noteq> NoOutput" and "read_output files outp = Inr out"
    and "matcher px outp (pattern out) t (child self) = (r, c)"
  shows "(r = Some ExcTIMEOUT \<longrightarrow>
            fst (stdout px files outp str_output t lg self)
              = Inl (Error (Text (''timed out while waiting for ''
                                  @ raw (Str (label str_output out)))) None FAIL))
         \<and> (r = Some ExcEOF \<longrightarrow> (\<forall>res. captured c = Inr res \<longrightarrow>
            fst (stdout px files outp str_output t lg self)
              = Inl (Error (Mis (Mismatch (Str (label str_output out)) (Str (crlf_to_lf res))))
                       None FAIL)))
         \<and> (r = None \<and> outp = ExpectEOF \<and> before_text c \<noteq> [] \<longrightarrow>
            fst (stdout px files outp str_output t lg self)
              = Inl (Error (Mis (Mismatch EOF (Str (crlf_to_lf (before_text c))))) None FAIL))"
proof (intro conjI impI allI)
  assume "r = Some ExcTIMEOUT"
  then show "fst (stdout px files outp str_output t lg self)
              = Inl (Error (Text (''timed out while waiting for ''
                                  @ raw (Str (label str_output out)))) None FAIL)"
    using stdout_expecting [OF assms] by simp
next
  fix res
  assume "r = Some ExcEOF" and "captured c = Inr res"
  then show "fst (stdout px files outp str_output t lg self)
              = Inl (Error (Mis (Mismatch (Str (label str_output out)) (Str (crlf_to_lf res))))
                       None FAIL)"
    using stdout_expecting [OF assms] by simp
next
  assume a: "r = None \<and> outp = ExpectEOF \<and> before_text c \<noteq> []"
  then have "out = EOF"
    using assms(2) by (simp add: read_output_def)
  with a show "fst (stdout px files outp str_output t lg self)
              = Inl (Error (Mis (Mismatch EOF (Str (crlf_to_lf (before_text c))))) None FAIL)"
    using stdout_expecting [OF assms] by simp
qed

lemmas sample_defs = matcher_def sample_pexpect_def pattern_def lf_to_crlf_def new_Child_def
  sample_process_def sample_search_def Let_def read_output_def captured_def label_def

theorem stdout_failure_modes_witness:
  "fst (stdout sample_pexpect Map.empty (Plain ''hello'') None 3 []
          (new_Child (sample_process ''hi'' False)))
     = Inl (Error (Text (''timed out while waiting for '' @ [CHR 0x22] @ ''hello'' @ [CHR 0x22]))
              None FAIL)
   \<and> fst (stdout sample_pexpect Map.empty (Plain ''hello'') None 3 []
          (new_Child (sample_process ''hi'' True)))
     = Inl (Error (Mis (Mismatch (Str ''hello'') (Str ''hi''))) None FAIL)
   \<and> fst (stdout sample_pexpect Map.empty ExpectEOF None 3 []
          (new_Child (sample_process ''hi'' True)))
     = Inl (Error (Mis (Mismatch EOF (Str ''hi''))) None FAIL)"
proof -
  have a: "fst (stdout sample_pexpect Map.empty (Plain ''hello'') None 3 []
          (new_Child (sample_process ''hi'' False)))
     = Inl (Error (Text (''timed out while waiting for '' @ [CHR 0x22] @ ''hello'' @ [CHR 0x22]))
              None FAIL)"
    using stdout_failure_modes [where px = sample_pexpect and files = Map.empty
        and outp = "Plain ''hello''" and out = "Str ''hello''" and t = 3
        and self = "new_Child (sample_process ''hi'' False)" and r = "Some ExcTIMEOUT"
        and c = "\<lparr>before_text = ''hi'', after = AfterTIMEOUT, buffer = ''hi'',
                   spawn_exitstatus = None, hidden = ([], False)\<rparr>"
        and str_output = None and lg = "[]"]
    by (simp add: sample_defs raw_def py_repr_def escaped_def repr_quote_def repr_char_def
        cut15_def py_isprintable_def)
  have b: "fst (stdout sample_pexpect Map.empty (Plain ''hello'') None 3 []
          (new_Child (sample_process ''hi'' True)))
     = Inl (Error (Mis (Mismatch (Str ''hello'') (Str ''hi''))) None FAIL)"
    using stdout_failure_modes [where px = sample_pexpect and files = Map.empty
        and outp = "Plain ''hello''" and out = "Str ''hello''" and t = 3
        and self = "new_Child (sample_process ''hi'' True)" and r = "Some ExcEOF"
        and c = "\<lparr>before_text = ''hi'', after = AfterEOF, buffer = [],
                   spawn_exitstatus = None, hidden = ([], True)\<rparr>"
        and str_output = None and lg = "[]"]
    by (simp add: sample_defs)
  have c: "fst (stdout sample_pexpect Map.empty ExpectEOF None 3 []
          (new_Child (sample_process ''hi'' True)))
     = Inl (Error (Mis (Mismatch EOF (Str ''hi''))) None FAIL)"
    using stdout_failure_modes [where px = sample_pexpect and files = Map.empty
        and outp = ExpectEOF and out = EOF and t = 3
        and self = "new_Child (sample_process ''hi'' True)" and r = None
        and c = "\<lparr>before_text = ''hi'', after = AfterEOF, buffer = [],
                   spawn_exitstatus = None, hidden = ([], True)\<rparr>"
        and str_output = None and lg = "[]"]
    by (simp add: sample_defs)
  from a b c show ?thesis by simp
qed


text \<open>
  C2. The outcome of \<^verbatim>\<open>stdout\<close> for a \<^verbatim>\<open>File\<close> is that of \<^verbatim>\<open>expect_exact\<close> and
  does not depend on \<^verbatim>\<open>expect\<close>; the outcome for a string is that of \<^verbatim>\<open>expect\<close> and
  does not depend on \<^verbatim>\<open>expect_exact\<close>. So for a file whose content is the string
  \<open>s\<close>: where the pattern matcher finds \<open>s\<close> and the exact matcher raises, \<^verbatim>\<open>stdout\<close>
  returns for the string and raises for the file, and the other way round.
\<close>

theorem literal_and_pattern_outcomes:
  assumes "files name = Some s"
  shows "(expect_exact px2 = expect_exact px \<longrightarrow>
            stdout px2 files (FileObj name) str_output t lg self
              = stdout px files (FileObj name) str_output t lg self)
         \<and> (expect px2 = expect px \<longrightarrow>
            stdout px2 files (Plain s) str_output t lg self
              = stdout px files (Plain s) str_output t lg self)
         \<and> (fst (expect px (Str (lf_to_crlf s)) t (child self)) = None
              \<and> fst (expect_exact px (Str (lf_to_crlf s)) t (child self)) \<noteq> None \<longrightarrow>
            fst (stdout px files (Plain s) str_output t lg self) = Inr Self
            \<and> (\<exists>e. fst (stdout px files (FileObj name) str_output t lg self) = Inl e))
         \<and> (fst (expect_exact px (Str (lf_to_crlf s)) t (child self)) = None
              \<and> fst (expect px (Str (lf_to_crlf s)) t (child self)) \<noteq> None \<longrightarrow>
            fst (stdout px files (FileObj name) str_output t lg self) = Inr Self
            \<and> (\<exists>e. fst (stdout px files (Plain s) str_output t lg self) = Inl e))"
proof -
  have of_file: "read_output files (FileObj name) = Inr (Str s)"
    using assms by (simp add: read_output_def)
  have of_plain: "read_output files (Plain s) = Inr (Str s)"
    by (simp add: read_output_def)
  have returns: "fst (stdout px files outp str_output t lg self) = Inr Self"
    if "outp \<noteq> NoOutput" "read_output files outp = Inr (Str s)"
      "fst (matcher px outp (pattern (Str s)) t (child self)) = None" for outp
    using stdout_expecting [where px = px and t = t and self = self and lg = lg
        and str_output = str_output, OF that(1,2) surjective_pairing] that(3) by simp
  have raises: "\<exists>e. fst (stdout px files outp str_output t lg self) = Inl e"
    if "outp \<noteq> NoOutput" "read_output files outp = Inr (Str s)"
      "fst (matcher px outp (pattern (Str s)) t (child self)) \<noteq> None" for outp
    using stdout_expecting [where px = px and t = t and self = self and lg = lg
        and str_output = str_output, OF that(1,2) surjective_pairing] that(3)
    by (auto split: option.splits exn.splits sum.splits)
  show ?thesis
    using returns [of "Plain s"] returns [of "FileObj name"]
      raises [of "Plain s"] raises [of "FileObj name"] of_file of_plain
    by (simp add: stdout_def matcher_def pattern_def)
qed

theorem literal_and_pattern_outcomes_witness:
  "[''expected.txt'' \<mapsto> ''a.c''] ''expected.txt'' = Some ''a.c''
   \<and> fst (stdout sample_pexpect [''expected.txt'' \<mapsto> ''a.c''] (Plain ''a.c'') None 3 []
          (new_Child (sample_process ''abc'' True))) = Inr Self
   \<and> (\<exists>e. fst (stdout sample_pexpect [''expected.txt'' \<mapsto> ''a.c''] (FileObj ''expected.txt'')
          None 3 [] (new_Child (sample_process ''abc'' True))) = Inl e)"
proof -
  have f: "[''expected.txt'' \<mapsto> ''a.c''] ''expected.txt'' = Some ''a.c''"
    by simp
  show ?thesis
    using f literal_and_pattern_outcomes [where files = "[''expected.txt'' \<mapsto> ''a.c'']"
        and name = "''expected.txt''" and s = "''a.c''" and px = sample_pexpect and t = 3
        and self = "new_Child (sample_process ''abc'' True)" and str_output = None
        and lg = "[]" and ?px2.0 = sample_pexpect]
    by (simp add: sample_defs)
qed

section \<open>Properties of Checks.spawn\<close>

text \<open>
  C10. When \<^verbatim>\<open>spawn\<close> gets a mapping \<open>env\<close> and does not fail on \<^verbatim>\<open>self.dir\<close>, it
  returns a child; afterwards \<^verbatim>\<open>os.environ\<close> is what it was, overridden by \<open>env\<close>, so
  every entry of \<open>env\<close> is in it; the argument \<^verbatim>\<open>env\<close> that \<^verbatim>\<open>pexpect\<close> received is
  \<^verbatim>\<open>None\<close>, with that \<^verbatim>\<open>os.environ\<close> as the process environment. A later \<^verbatim>\<open>spawn\<close>
  without \<open>env\<close>, from any check, leaves \<^verbatim>\<open>os.environ\<close> as it is and starts its child
  with \<^verbatim>\<open>None\<close> and the same environment.
\<close>

theorem spawn_env_goes_to_os_environ:
  assumes "\<not> (valgrind_on self \<and> dir self = None)"
  shows "\<exists>c self1 w1 cmd1.
           spawn px cmd (Some env) self w = (Inr c, self1, w1)
           \<and> environ w1 = environ w ++ env
           \<and> (\<forall>k v. env k = Some v \<longrightarrow> environ w1 k = Some v)
           \<and> child c = spawnu px cmd1 None (environ w ++ env)
           \<and> (\<forall>later_cmd later_self. \<not> (valgrind_on later_self \<and> dir later_self = None) \<longrightarrow>
                (\<exists>c2 self2 cmd2.
                   spawn px later_cmd None later_self w1 = (Inr c2, self2, w1)
                   \<and> child c2 = spawnu px cmd2 None (environ w ++ env)))"
  using assms by (auto simp: spawn_def dict_update_def new_Child_def Let_def)

theorem spawn_env_goes_to_os_environ_witness:
  "\<exists>c self1 w1 cmd1.
     spawn sample_pexpect ''./hello'' (Some [''LANG'' \<mapsto> ''C'']) (new_Checks ''runs'')
       (sample_world Map.empty) = (Inr c, self1, w1)
     \<and> environ w1 ''LANG'' = Some ''C''
     \<and> child c = spawnu sample_pexpect cmd1 None [''LANG'' \<mapsto> ''C'']"
proof -
  have n: "\<not> (valgrind_on (new_Checks ''runs'' :: (string \<times> bool) Checks)
               \<and> dir (new_Checks ''runs'' :: (string \<times> bool) Checks) = None)"
    by (simp add: new_Checks_def)
  from spawn_env_goes_to_os_environ [OF n, of sample_pexpect "''./hello''"
      "[''LANG'' \<mapsto> ''C'']" "sample_world Map.empty"]
  obtain c self1 w1 cmd1 where
    "spawn sample_pexpect ''./hello'' (Some [''LANG'' \<mapsto> ''C'']) (new_Checks ''runs'')
       (sample_world Map.empty) = (Inr c, self1, w1)"
    "environ w1 = environ (sample_world Map.empty) ++ [''LANG'' \<mapsto> ''C'']"
    "child c = spawnu sample_pexpect cmd1 None
                 (environ (sample_world Map.empty) ++ [''LANG'' \<mapsto> ''C''])"
    by blast
  then show ?thesis
    by (auto simp: sample_world_def)
qed

section \<open>Properties of Checks._check_valgrind\<close>

lemma first_occurrences_set: "set (first_occurrences ms seen) = set ms - seen"
  by (induction ms arbitrary: seen) auto

lemma first_occurrences_distinct: "distinct (first_occurrences ms seen)"
  by (induction ms arbitrary: seen) (auto simp: first_occurrences_set)

lemma count_list_distinct: "distinct xs \<Longrightarrow> x \<in> set xs \<Longrightarrow> count_list xs x = 1"
  by (induction xs) auto

lemma report_all_rendered:
  "map (render d) errors = map Inr msgs \<Longrightarrow>
   report d errors lg seen = (None, lg @ first_occurrences msgs seen, seen \<union> set msgs)"
proof (induction errors arbitrary: msgs lg seen)
  case Nil
  then show ?case by simp
next
  case (Cons error errors)
  then obtain m ms where msgs: "msgs = m # ms" and m: "render d error = Inr m"
    and ms: "map (render d) errors = map Inr ms"
    by (cases msgs) auto
  show ?case
    using Cons.IH [OF ms] by (simp add: msgs m insert_absorb)
qed

text \<open>
  C5. When the report is read and every entry of it is rendered, the log gets, after
  the line that announces the audit, the rendered messages without their repetitions:
  each message of the report is there once, however many entries have it, and nothing
  else is there. When the report has an entry, \<^verbatim>\<open>_check_valgrind\<close> raises an \<^verbatim>\<open>Error\<close>
  whose verdict is FAIL; when it has none, it returns.
\<close>

theorem valgrind_logs_each_message_once:
  assumes "dir self = Some d" and "parse (path_join d valgrind_log) = Some root"
    and "map (render d) (iterfind [''error''] root) = map Inr msgs"
  shows "\<exists>new. log (snd (check_valgrind parse self))
                 = log self @ [''checking for valgrind errors... ''] @ new
           \<and> (\<forall>m \<in> set msgs. count_list new m = 1) \<and> set new = set msgs
           \<and> (msgs \<noteq> [] \<longrightarrow> fst (check_valgrind parse self)
                 = Some (Error (Text ''valgrind tests failed; rerun with --log for more information.'')
                           None FAIL))
           \<and> (msgs = [] \<longrightarrow> fst (check_valgrind parse self) = None)"
proof -
  let ?new = "first_occurrences msgs {}"
  have run: "report d (iterfind [''error''] root)
               (log self @ [''checking for valgrind errors... '']) {}
             = (None, (log self @ [''checking for valgrind errors... '']) @ ?new, {} \<union> set msgs)"
    by (rule report_all_rendered [OF assms(3)])
  have once: "\<forall>m \<in> set msgs. count_list ?new m = 1"
    by (simp add: count_list_distinct first_occurrences_distinct first_occurrences_set)
  have same: "set ?new = set msgs"
    by (simp add: first_occurrences_set)
  have lg: "log (snd (check_valgrind parse self))
              = log self @ [''checking for valgrind errors... ''] @ ?new"
    using assms(1,2) run by (simp add: check_valgrind_def)
  have raised: "msgs \<noteq> [] \<longrightarrow> fst (check_valgrind parse self)
                 = Some (Error (Text ''valgrind tests failed; rerun with --log for more information.'')
                           None FAIL)"
    using assms(1,2) run by (simp add: check_valgrind_def)
  have returned: "msgs = [] \<longrightarrow> fst (check_valgrind parse self) = None"
    using assms(1,2) run by (simp add: check_valgrind_def)
  from lg once same raised returned show ?thesis
    by blast
qed

theorem valgrind_logs_each_message_once_witness:
  "map (render ''/tmp/t/leak'') (iterfind [''error''] sample_report)
     = map Inr [[CHR 0x09] @ ''40 bytes lost: (file: hello.c, line: 5)'',
                [CHR 0x09] @ ''40 bytes lost: (file: hello.c, line: 5)'']
   \<and> (\<exists>new. log (snd (check_valgrind [''/tmp/t/leak/valgrind.xml'' \<mapsto> sample_report]
                 ((new_Checks ''leak'' :: unit Checks)\<lparr>dir := Some ''/tmp/t/leak''\<rparr>)))
               = [''checking for valgrind errors... ''] @ new
          \<and> count_list new ([CHR 0x09] @ ''40 bytes lost: (file: hello.c, line: 5)'') = 1
          \<and> set new = {[CHR 0x09] @ ''40 bytes lost: (file: hello.c, line: 5)''})
   \<and> fst (check_valgrind [''/tmp/t/leak/valgrind.xml'' \<mapsto> sample_report]
             ((new_Checks ''leak'' :: unit Checks)\<lparr>dir := Some ''/tmp/t/leak''\<rparr>))
       = Some (Error (Text ''valgrind tests failed; rerun with --log for more information.'')
                 None FAIL)"
proof -
  let ?m = "[CHR 0x09] @ ''40 bytes lost: (file: hello.c, line: 5)''"
  let ?self = "(new_Checks ''leak'' :: unit Checks)\<lparr>dir := Some ''/tmp/t/leak''\<rparr>"
  let ?parse = "[''/tmp/t/leak/valgrind.xml'' \<mapsto> sample_report]"
  have d: "dir ?self = Some ''/tmp/t/leak''"
    by simp
  have p: "?parse (path_join ''/tmp/t/leak'' valgrind_log) = Some sample_report"
    by (simp add: path_join_def valgrind_log_def)
  have r: "render ''/tmp/t/leak'' sample_leak = Inr ?m"
    by (simp add: render_def sample_leak_def find_elem_def startswith_def dirname_def
        format_text_def)
  have e: "iterfind [''error''] sample_report = [sample_leak, sample_leak]"
    by (simp add: sample_report_def sample_leak_def)
  have m: "map (render ''/tmp/t/leak'') (iterfind [''error''] sample_report) = map Inr [?m, ?m]"
    unfolding e by (simp add: r)
  from valgrind_logs_each_message_once [where parse = ?parse and self = ?self
      and d = "''/tmp/t/leak''" and root = sample_report and msgs = "[?m, ?m]", OF d p m]
  obtain new where lg: "log (snd (check_valgrind ?parse ?self))
                          = log ?self @ [''checking for valgrind errors... ''] @ new"
    and once: "\<forall>x \<in> set [?m, ?m]. count_list new x = 1"
    and same: "set new = set [?m, ?m]"
    and raised: "[?m, ?m] \<noteq> [] \<longrightarrow> fst (check_valgrind ?parse ?self)
                   = Some (Error (Text ''valgrind tests failed; rerun with --log for more information.'')
                             None FAIL)"
    by blast
  have logged: "\<exists>new. log (snd (check_valgrind ?parse ?self))
                         = [''checking for valgrind errors... ''] @ new
                  \<and> count_list new ?m = 1 \<and> set new = {?m}"
  proof (intro exI conjI)
    show "log (snd (check_valgrind ?parse ?self)) = [''checking for valgrind errors... ''] @ new"
      using lg by (simp add: new_Checks_def)
    show "count_list new ?m = 1"
      using once by simp
    show "set new = {?m}"
      using same by simp
  qed
  have failed: "fst (check_valgrind ?parse ?self)
                  = Some (Error (Text ''valgrind tests failed; rerun with --log for more information.'')
                            None FAIL)"
    using raised by simp
  from m logged failed show ?thesis
    by (intro conjI)
qed

end
